theory Spec2Isabelle
  imports Complex_Main "HOL-Library.Multiset"
begin

section \<open>Shapely values, Python errors and Qt signals\<close>

text \<open>
  The engine of \<^verbatim>\<open>src/elk.py\<close> is the class \<^verbatim>\<open>Backend\<close> (lines 936-1125): the slots
  \<^verbatim>\<open>get_lasso_area\<close> (the spec's resolveLoop), \<^verbatim>\<open>get_multi_area\<close> (resolveSplit) and the
  helper \<^verbatim>\<open>get_intersection_point\<close> (the IntersectionResolver), driven by
  \<^verbatim>\<open>MplCanvas.onselect\<close> (lines 1185-1217).

  Coordinates are Python floats; they are read here as real numbers, so every statement
  below is about exact arithmetic. A shapely geometry is a value of the datatype
  \<open>geometry\<close>; only the five classes that the code inspects with \<^verbatim>\<open>type(...)\<close> occur.
\<close>

type_synonym point = "real \<times> real"

datatype geometry =
    Point point
  | LineString "point list"
  | MultiPoint "point list"
  | MultiLineString "point list list"
  | GeometryCollection "geometry list"

datatype error = ValueError | IndexError | UnboundLocalError | TypeError

text \<open>Python's \<^verbatim>\<open>xs[i]\<close> for \<open>i \<ge> 0\<close>: IndexError out of range.\<close>

definition pyidx :: "'a list \<Rightarrow> nat \<Rightarrow> error + 'a" where
  "pyidx xs i = (if i < length xs then Inr (xs ! i) else Inl IndexError)"

text \<open>Python's \<^verbatim>\<open>xs[-1]\<close>.\<close>

definition pylast :: "'a list \<Rightarrow> error + 'a" where
  "pylast xs = (if xs = [] then Inl IndexError else Inr (last xs))"

section \<open>The IntersectionResolver: \<^verbatim>\<open>Backend.get_intersection_point\<close>\<close>

text \<open>\<^verbatim>\<open>np.round\<close> rounds to the nearest integer, a tie to the even neighbour.\<close>

definition np_round :: "real \<Rightarrow> real" where
  "np_round v =
     (let f = \<lfloor>v\<rfloor>; d = v - of_int f
      in if d < 1 / 2 then of_int f
         else if 1 / 2 < d then of_int (f + 1)
         else if even f then of_int f else of_int (f + 1))"

definition round_point :: "point \<Rightarrow> point" where
  "round_point p = (np_round (fst p), np_round (snd p))"

text \<open>\<^verbatim>\<open>np.mean(crosspoints, axis=0)[i]\<close> for a non-empty list of rows.\<close>

definition mean :: "real list \<Rightarrow> real" where
  "mean vs = sum_list vs / real (length vs)"

text \<open>
  Lines 1117-1125. The rows are rounded, the first row is the reference, and the
  \<^verbatim>\<open>for\<close> loop leaves the function in its first iteration on either branch: it raises
  when the first row is off the reference, and returns the rounded mean of all rounded
  rows otherwise. \<open>tolerance_loop\<close> is that loop; its list argument is what is
  left to iterate over. With nothing to iterate over the loop would end and the function
  would return \<^verbatim>\<open>None\<close>, which no caller can use; the first equation stands for that. It
  is never reached, since \<^verbatim>\<open>crosspoints[0]\<close> has been read before the loop starts.
\<close>

fun tolerance_loop :: "point list \<Rightarrow> real \<Rightarrow> real \<Rightarrow> point list \<Rightarrow> error + point" where
  "tolerance_loop crosspoints startx starty [] = Inl TypeError"
| "tolerance_loop crosspoints startx starty (point # rest) =
     (if \<bar>fst point - startx\<bar> > 1 \<or> \<bar>snd point - starty\<bar> > 1 then Inl ValueError
      else Inr (np_round (mean (map fst crosspoints)), np_round (mean (map snd crosspoints))))"

definition resolve_rows :: "point list \<Rightarrow> error + point" where
  "resolve_rows rows =
     (let crosspoints = map round_point rows
      in case pyidx crosspoints 0 of
           Inl e \<Rightarrow> Inl e
         | Inr start \<Rightarrow> tolerance_loop crosspoints (fst start) (snd start) crosspoints)"

text \<open>A list comprehension whose element may raise: the first error wins.\<close>

fun collect :: "(error + 'a) list \<Rightarrow> error + 'a list" where
  "collect [] = Inr []"
| "collect (Inl e # rs) = Inl e"
| "collect (Inr v # rs) = (case collect rs of Inl e \<Rightarrow> Inl e | Inr vs \<Rightarrow> Inr (v # vs))"

text \<open>
  Lines 1099-1115, the dispatch on the class of the argument. A \<^verbatim>\<open>Point\<close> is returned as
  it is. The coordinates of a \<^verbatim>\<open>LineString\<close> and the members of a \<^verbatim>\<open>MultiPoint\<close> become
  the rows. For a \<^verbatim>\<open>MultiLineString\<close> the function calls itself on every member, a
  \<^verbatim>\<open>LineString\<close>, and the points returned become the rows (shapely 1.x points expose the
  array interface, so \<^verbatim>\<open>np.round\<close> reads a list of them as rows); with no member the
  geometry itself reaches \<^verbatim>\<open>np.round\<close>, which has no rows to read. Every other class
  raises ValueError.
\<close>

fun get_intersection_point :: "geometry \<Rightarrow> error + point" where
  "get_intersection_point (Point p) = Inr p"
| "get_intersection_point (LineString cs) = resolve_rows cs"
| "get_intersection_point (MultiLineString ls) =
     (if ls = [] then Inl TypeError
      else case collect (map resolve_rows ls) of
             Inl e \<Rightarrow> Inl e
           | Inr tmp \<Rightarrow> resolve_rows tmp)"
| "get_intersection_point (MultiPoint ps) = resolve_rows ps"
| "get_intersection_point (GeometryCollection gs) = Inl ValueError"

section \<open>The geometry kernel: the shapely operations the engine calls\<close>

text \<open>
  shapely is a library, not code of this repository, so its operations are parameters of
  the model: a \<open>kernel\<close> holds one function for each operation that the two slots call
  on line strings (given by their coordinate lists) and points.
  \<^item> \<open>intersection a b\<close> is \<^verbatim>\<open>a.intersection(b)\<close>, \<open>intersects a b\<close> is \<^verbatim>\<open>a.intersects(b)\<close>;
  \<^item> \<open>nearest_points cs p\<close> is \<^verbatim>\<open>nearest_points(MultiPoint(cs), p)[0]\<close>, a vertex;
  \<^item> \<open>split cs p\<close> is \<^verbatim>\<open>shapely.ops.split(LineString(cs), p)\<close>, the coordinate lists of
    the pieces;
  \<^item> \<open>distance cs p\<close> is \<^verbatim>\<open>LineString(cs).distance(p)\<close> and \<open>contains cs p\<close> is
    \<^verbatim>\<open>LineString(cs).contains(p)\<close>.
\<close>

record kernel =
  intersection :: "point list \<Rightarrow> point list \<Rightarrow> geometry"
  intersects :: "point list \<Rightarrow> point list \<Rightarrow> bool"
  nearest_points :: "point list \<Rightarrow> point \<Rightarrow> point"
  split :: "point list \<Rightarrow> point \<Rightarrow> point list list"
  distance :: "point list \<Rightarrow> point \<Rightarrow> real"
  contains :: "point list \<Rightarrow> point \<Rightarrow> bool"

text \<open>\<^verbatim>\<open>Point(a).distance(Point(b))\<close>, the Euclidean distance.\<close>

definition point_distance :: "point \<Rightarrow> point \<Rightarrow> real" where
  "point_distance a b = sqrt ((fst a - fst b)\<^sup>2 + (snd a - snd b)\<^sup>2)"

text \<open>
  The constructors. \<^verbatim>\<open>LineString(coords)\<close> raises ValueError for a single coordinate
  tuple. \<^verbatim>\<open>LinearRing(coords)\<close>, for the four or more tuples it gets here, repeats the
  first tuple at the end unless the sequence is closed already.
\<close>

definition new_LineString :: "point list \<Rightarrow> error + point list" where
  "new_LineString coords = (if length coords = 1 then Inl ValueError else Inr coords)"

definition LinearRing :: "point list \<Rightarrow> point list" where
  "LinearRing coords = (if hd coords = last coords then coords else coords @ [hd coords])"

text \<open>\<^verbatim>\<open>np.array_split(lasso, 2)\<close>: the first part takes the extra element.\<close>

definition array_split :: "'a list \<Rightarrow> 'a list \<times> 'a list" where
  "array_split xs = (take ((length xs + 1) div 2) xs, drop ((length xs + 1) div 2) xs)"

section \<open>Slots: signals emitted, early returns, exceptions\<close>

text \<open>
  A slot emits signals and then either returns or dies with an exception. A piece of a
  slot's body is a \<open>step\<close>: the signals it emitted, and whether control goes on with a
  value (\<open>Next\<close>), the slot has executed \<^verbatim>\<open>return\<close> (\<open>Return\<close>) or an exception
  travels up (\<open>Raise\<close>). The \<open>outcome\<close> of a slot is its signals and its exception,
  if any.
\<close>

datatype signal =
    is_new_coords: new_coords "real list" "real list"
  | is_ask_redraw: ask_redraw nat

datatype 'a flow = Next 'a | Return | Raise error

type_synonym 'a step = "signal list \<times> 'a flow"

type_synonym outcome = "signal list \<times> error option"

definition then_do :: "'a step \<Rightarrow> ('a \<Rightarrow> 'b step) \<Rightarrow> 'b step" where
  "then_do m f =
     (case m of
        (s, Next v) \<Rightarrow> (case f v of (s', r) \<Rightarrow> (s @ s', r))
      | (s, Return) \<Rightarrow> (s, Return)
      | (s, Raise e) \<Rightarrow> (s, Raise e))"

definition emit :: "signal \<Rightarrow> unit step" where
  "emit sg = ([sg], Next ())"

definition attempt :: "error + 'a \<Rightarrow> 'a step" where
  "attempt r = ([], case r of Inl e \<Rightarrow> Raise e | Inr v \<Rightarrow> Next v)"

definition item :: "'a list \<Rightarrow> nat \<Rightarrow> 'a step" where
  "item xs i = attempt (pyidx xs i)"

definition finish :: "'a step \<Rightarrow> outcome" where
  "finish m = (case m of (s, Raise e) \<Rightarrow> (s, Some e) | (s, _) \<Rightarrow> (s, None))"

section \<open>The LoopCloser: \<^verbatim>\<open>Backend.get_lasso_area\<close>\<close>

text \<open>
  Lines 944-1008. \<open>firstcoord\<close> is bound in the loop at the first coordinate of the
  first piece, so it is unbound when that piece has no coordinate.
\<close>

definition get_lasso_area :: "kernel \<Rightarrow> point list \<Rightarrow> outcome" where
  "get_lasso_area k lasso = finish
     (if length lasso < 4 then ([], Return)
      else
        let templine1 = fst (array_split lasso);
            templine2 = snd (array_split lasso);
            crosspoint = intersection k templine1 templine2
        in case crosspoint of
             GeometryCollection gs \<Rightarrow>
               if gs = [] then
                 (let coordseq = LinearRing lasso
                  in then_do (emit (new_coords (map fst coordseq) (map snd coordseq)))
                       (\<lambda>_. ([], Return)))
               else then_do (emit (ask_redraw 1)) (\<lambda>_. ([], Return))
           | _ \<Rightarrow>
               (case get_intersection_point crosspoint of
                  Inl ValueError \<Rightarrow> then_do (emit (ask_redraw 1)) (\<lambda>_. ([], Return))
                | Inl e \<Rightarrow> ([], Raise e)
                | Inr crosspoint' \<Rightarrow>
                    let crosspoint1 = nearest_points k templine1 crosspoint';
                        crosspoint2 = nearest_points k templine2 crosspoint';
                        split1 = split k templine1 crosspoint1;
                        split2 = split k templine2 crosspoint2
                    in if length split1 < 2 \<or> length split2 < 2 then ([], Return)
                       else
                         let multi =
                               (if contains k (split1 ! 0) (last templine1)
                                   \<or> contains k (split1 ! 0) (hd templine2)
                                then [split1 ! 0, split2 ! 1]
                                else [split1 ! 1, split2 ! 0]);
                             coords = concat multi
                         in (case multi ! 0 of
                               [] \<Rightarrow> ([], Raise UnboundLocalError)
                             | firstcoord # _ \<Rightarrow>
                                 emit (new_coords (map fst coords @ [fst firstcoord])
                                                  (map snd coords @ [snd firstcoord])))))"

section \<open>The RegionSplitter: \<^verbatim>\<open>Backend.get_multi_area\<close>\<close>

text \<open>
  Lines 1040-1046: the four nearest vertices go through \<open>get_intersection_point\<close>; a
  ValueError there is answered with code 1 and a return.
\<close>

fun resolve_crosspoints :: "point list \<Rightarrow> point list step" where
  "resolve_crosspoints [] = ([], Next [])"
| "resolve_crosspoints (crosspoint # rest) =
     (case get_intersection_point (Point crosspoint) of
        Inl ValueError \<Rightarrow> then_do (emit (ask_redraw 1)) (\<lambda>_. ([], Return))
      | Inl e \<Rightarrow> ([], Raise e)
      | Inr p \<Rightarrow> then_do (resolve_crosspoints rest) (\<lambda>ps. ([], Next (p # ps))))"

text \<open>
  Lines 1050-1055 bind \<open>split2\<close>, lines 1064-1069 bind \<open>split2_old\<close> in the same way:
  the piece of the first split within 0.1 of the locus is split at the second
  crosspoint. The last branch emits code 0 and goes on, with the variable unbound
  (\<open>None\<close>).
\<close>

definition second_split ::
  "kernel \<Rightarrow> point list list \<Rightarrow> point \<Rightarrow> point \<Rightarrow> point list list option step" where
  "second_split k split1 locus crosspoint2 =
     then_do (item split1 0) (\<lambda>piece0.
       if distance k piece0 locus < 1 / 10 then ([], Next (Some (split k piece0 crosspoint2)))
       else then_do (item split1 1) (\<lambda>piece1.
         if distance k piece1 locus < 1 / 10 then ([], Next (Some (split k piece1 crosspoint2)))
         else then_do (emit (ask_redraw 0)) (\<lambda>_. ([], Next None))))"

text \<open>
  Lines 1057-1062: the piece of \<open>split2\<close> within 1 of both crosspoints is the first
  member of \<open>multi\<close>. Reading the unbound \<open>split2\<close> raises UnboundLocalError.
\<close>

definition keep_line ::
  "kernel \<Rightarrow> point list list option \<Rightarrow> point \<Rightarrow> point \<Rightarrow> point list list step" where
  "keep_line k split2 crosspoint1 crosspoint2 =
     (case split2 of
        None \<Rightarrow> ([], Raise UnboundLocalError)
      | Some pieces \<Rightarrow>
          then_do (item pieces 0) (\<lambda>piece0.
            if distance k piece0 crosspoint1 < 1 \<and> distance k piece0 crosspoint2 < 1
            then ([], Next [piece0])
            else then_do (item pieces 1) (\<lambda>piece1.
              if distance k piece1 crosspoint1 < 1 \<and> distance k piece1 crosspoint2 < 1
              then ([], Next [piece1])
              else then_do (emit (ask_redraw 0)) (\<lambda>_. ([], Next [])))))"

text \<open>
  Lines 1071-1078: of the two pieces of \<open>split2_old\<close>, the one that is not within 0.1 of
  the first or the last coordinate of the parent is appended to \<open>multi\<close>.
\<close>

definition keep_arc ::
  "kernel \<Rightarrow> point list list option \<Rightarrow> point list \<Rightarrow> point list list \<Rightarrow> point list list step" where
  "keep_arc k split2_old maincell multi =
     (case split2_old of
        None \<Rightarrow> ([], Raise UnboundLocalError)
      | Some pieces \<Rightarrow>
          then_do (item pieces 0) (\<lambda>piece0.
          then_do (item maincell 0) (\<lambda>seam.
            if distance k piece0 seam < 1 / 10 \<or> distance k piece0 (last maincell) < 1 / 10
            then then_do (item pieces 1) (\<lambda>piece1. ([], Next (multi @ [piece1])))
            else then_do (item pieces 1) (\<lambda>piece1.
              if distance k piece1 seam < 1 / 10 \<or> distance k piece1 (last maincell) < 1 / 10
              then ([], Next (multi @ [piece0]))
              else then_do (emit (ask_redraw 0)) (\<lambda>_. ([], Next multi))))))"

text \<open>
  Lines 1080-1094: the coordinates of \<open>multi[0]\<close>, then those of \<open>multi[1]\<close>, forwards when
  its first coordinate is the nearer one to the last coordinate written, backwards
  otherwise. The list is emitted as it is.
\<close>

definition stitch :: "point list list \<Rightarrow> unit step" where
  "stitch multi =
     then_do (item multi 0) (\<lambda>line.
     then_do (item multi 1) (\<lambda>coordseq.
     then_do (attempt (pylast line)) (\<lambda>end.
     then_do (item coordseq 0) (\<lambda>first.
       let coords =
             (if point_distance end first < point_distance end (last coordseq)
              then line @ coordseq else line @ rev coordseq)
       in emit (new_coords (map fst coords) (map snd coords))))))"

text \<open>Lines 1030-1094, entered with the members of the \<^verbatim>\<open>MultiPoint\<close>.\<close>

definition split_steps :: "kernel \<Rightarrow> point list \<Rightarrow> point list \<Rightarrow> point list \<Rightarrow> unit step" where
  "split_steps k maincell newline crosspoint_temp =
     then_do (item crosspoint_temp 0) (\<lambda>locus1.
       let crosspoint1 = nearest_points k newline locus1;
           crosspoint1_old = nearest_points k maincell locus1;
           split1 = split k newline crosspoint1;
           split1_old = split k maincell crosspoint1_old
       in
     then_do (item crosspoint_temp 1) (\<lambda>locus2.
       let crosspoint2 = nearest_points k newline locus2;
           crosspoint2_old = nearest_points k maincell locus2
       in
     then_do (resolve_crosspoints [crosspoint1, crosspoint1_old, crosspoint2, crosspoint2_old])
       (\<lambda>crosspoints.
     then_do (second_split k split1 locus2 (crosspoints ! 2)) (\<lambda>split2.
     then_do (keep_line k split2 (crosspoints ! 0) (crosspoints ! 2)) (\<lambda>multi.
     then_do (second_split k split1_old (crosspoints ! 3) (crosspoints ! 3)) (\<lambda>split2_old.
     then_do (keep_arc k split2_old maincell multi) (\<lambda>multi'.
       stitch multi')))))))"

text \<open>Lines 1011-1097; \<open>lassolist\<close> is the pair of the parent's points and the gesture.\<close>

definition get_multi_area :: "kernel \<Rightarrow> point list \<Rightarrow> point list \<Rightarrow> outcome" where
  "get_multi_area k parent lasso = finish
     (if length lasso < 4 then ([], Return)
      else
        then_do (attempt (new_LineString parent)) (\<lambda>maincell.
          let newline = lasso
          in if intersects k newline maincell then
               (case intersection k maincell newline of
                  MultiPoint crosspoint_temp \<Rightarrow>
                    if length crosspoint_temp > 2
                    then then_do (emit (ask_redraw 4)) (\<lambda>_. ([], Return))
                    else split_steps k maincell newline crosspoint_temp
                | _ \<Rightarrow> then_do (emit (ask_redraw 2)) (\<lambda>_. ([], Return)))
             else emit (ask_redraw 2)))"


section \<open>The caller: \<^verbatim>\<open>MplCanvas.onselect\<close> and the slots of the GUI thread\<close>

text \<open>
  An \<^verbatim>\<open>Object\<close> holds its curve in the attributes \<^verbatim>\<open>x\<close> and \<^verbatim>\<open>y\<close> (\<^verbatim>\<open>None\<close> until a curve is
  stored) and refers to its parent object. Objects are shared by reference, so they live
  in a store indexed by address; \<open>currentObject\<close> and \<open>obj_parent\<close> are addresses.
\<close>

record object =
  obj_x :: "real list option"
  obj_y :: "real list option"
  obj_parent :: "nat option"

record canvas =
  currentObject :: nat
  objects :: "nat \<Rightarrow> object"
  repeatdraw :: bool

definition set_coords :: "canvas \<Rightarrow> real list option \<Rightarrow> real list option \<Rightarrow> canvas" where
  "set_coords c xs ys =
     c\<lparr>objects := (objects c)
          (currentObject c := (objects c (currentObject c))\<lparr>obj_x := xs, obj_y := ys\<rparr>)\<rparr>"

text \<open>Lines 1225-1235 and 1237-1246, without the drawing.\<close>

definition draw_object :: "canvas \<Rightarrow> real list \<Rightarrow> real list \<Rightarrow> canvas" where
  "draw_object c xs ys = (set_coords c (Some xs) (Some ys))\<lparr>repeatdraw := True\<rparr>"

definition remove_object :: "canvas \<Rightarrow> canvas" where
  "remove_object c = (set_coords c None None)\<lparr>repeatdraw := False\<rparr>"

text \<open>
  Lines 1192-1196: \<^verbatim>\<open>len(x)\<close> and \<^verbatim>\<open>y[n]\<close> raise TypeError on \<^verbatim>\<open>None\<close>, and \<^verbatim>\<open>y[n]\<close> raises
  IndexError when \<^verbatim>\<open>y\<close> is the shorter list.
\<close>

definition mainobject :: "real list option \<Rightarrow> real list option \<Rightarrow> error + point list" where
  "mainobject px py =
     (case px of
        None \<Rightarrow> Inl TypeError
      | Some xs \<Rightarrow>
          if xs = [] then Inr []
          else (case py of
                  None \<Rightarrow> Inl TypeError
                | Some ys \<Rightarrow> if length ys < length xs then Inl IndexError else Inr (zip xs ys)))"

datatype request = lasso_drawn "point list" | multi_drawn "point list" "point list"

text \<open>
  Lines 1185-1217. The result is the canvas after the writes of \<open>onselect\<close>, the signal
  sent to the backend, if any, and the signal \<open>onselect\<close> emits itself: code 3 when the
  parent has no curve (the TypeError is caught). An IndexError is not caught and leaves
  \<open>onselect\<close> before any write.
\<close>

definition onselect :: "canvas \<Rightarrow> point list \<Rightarrow> error + canvas \<times> request option \<times> signal list" where
  "onselect c verts =
     (case (case obj_parent (objects c (currentObject c)) of
              None \<Rightarrow> Inr (Some (lasso_drawn verts), False)
            | Some p \<Rightarrow>
                (case mainobject (obj_x (objects c p)) (obj_y (objects c p)) of
                   Inl TypeError \<Rightarrow> Inr (None, True)
                 | Inl e \<Rightarrow> Inl e
                 | Inr main \<Rightarrow> Inr (Some (multi_drawn main verts), False)))
      of
        Inl e \<Rightarrow> Inl e
      | Inr (sent, failure) \<Rightarrow>
          let c1 = set_coords c (Some (map fst verts)) (Some (map snd verts));
              c2 = draw_object c1 (map fst verts) (map snd verts)
          in Inr (c2, sent, if failure then [ask_redraw 3] else []))"

text \<open>Lines 73-74: the two signals of the canvas are connected to the two slots.\<close>

fun backend :: "kernel \<Rightarrow> request \<Rightarrow> outcome" where
  "backend k (lasso_drawn verts) = get_lasso_area k verts"
| "backend k (multi_drawn main verts) = get_multi_area k main verts"

text \<open>
  Lines 75-77 and 160-161: \<^verbatim>\<open>new_coords\<close> is connected to \<^verbatim>\<open>draw_object\<close>, and \<^verbatim>\<open>ask_redraw\<close>
  to \<^verbatim>\<open>VisionGui.ask_redraw\<close>, which calls \<^verbatim>\<open>remove_object\<close> before it shows the message.
\<close>

fun deliver :: "canvas \<Rightarrow> signal \<Rightarrow> canvas" where
  "deliver c (new_coords xs ys) = draw_object c xs ys"
| "deliver c (ask_redraw code) = remove_object c"

text \<open>
  One drag of the pointer. The backend lives in its own thread and its signals are
  queued for the GUI thread, which is inside \<open>onselect\<close> until \<open>onselect\<close> returns: the
  writes of \<open>onselect\<close> come first, then the signals take effect in the order of their
  emission. The result is the canvas afterwards and the signals that reached the GUI.
\<close>

definition engine_call :: "kernel \<Rightarrow> canvas \<Rightarrow> point list \<Rightarrow> canvas \<times> signal list" where
  "engine_call k c verts =
     (case onselect c verts of
        Inl e \<Rightarrow> (c, [])
      | Inr (c', sent, own) \<Rightarrow>
          let sigs = own @ (case sent of None \<Rightarrow> [] | Some r \<Rightarrow> fst (backend k r))
          in (foldl deliver c' sigs, sigs))"

section \<open>Exact geometry and a reference kernel\<close>

text \<open>
  Whether two line strings have a point in common is decided exactly by the orientation
  test on each pair of segments.
\<close>

definition segments :: "point list \<Rightarrow> (point \<times> point) list" where
  "segments cs = zip cs (tl cs)"

definition orient :: "point \<Rightarrow> point \<Rightarrow> point \<Rightarrow> real" where
  "orient p q r = (fst q - fst p) * (snd r - snd p) - (snd q - snd p) * (fst r - fst p)"

definition on_segment :: "point \<Rightarrow> point \<Rightarrow> point \<Rightarrow> bool" where
  "on_segment p q r =
     (orient p q r = 0
      \<and> min (fst p) (fst q) \<le> fst r \<and> fst r \<le> max (fst p) (fst q)
      \<and> min (snd p) (snd q) \<le> snd r \<and> snd r \<le> max (snd p) (snd q))"

definition segments_meet :: "point \<times> point \<Rightarrow> point \<times> point \<Rightarrow> bool" where
  "segments_meet s t =
     (let p = fst s; q = snd s; u = fst t; v = snd t
      in (sgn (orient p q u) \<noteq> sgn (orient p q v) \<and> sgn (orient u v p) \<noteq> sgn (orient u v q))
         \<or> on_segment p q u \<or> on_segment p q v \<or> on_segment u v p \<or> on_segment u v q)"

definition lines_cross :: "point list \<Rightarrow> point list \<Rightarrow> bool" where
  "lines_cross a b = list_ex (\<lambda>s. list_ex (segments_meet s) (segments b)) (segments a)"

definition on_line :: "point list \<Rightarrow> point \<Rightarrow> bool" where
  "on_line cs p = list_ex (\<lambda>s. on_segment (fst s) (snd s) p) (segments cs)"

text \<open>
  The reference kernel computes the shapely operations in exact arithmetic. It is used
  for the concrete inputs below; the general theorems hold for every kernel.
  Two segments are apart, meet in one point, or share a stretch of a common line.
\<close>

datatype meeting = Apart | Touch point | Overlap point point

definition lex_le :: "point \<Rightarrow> point \<Rightarrow> bool" where
  "lex_le a b = (fst a < fst b \<or> (fst a = fst b \<and> snd a \<le> snd b))"

definition lex_min :: "point \<Rightarrow> point \<Rightarrow> point" where
  "lex_min a b = (if lex_le a b then a else b)"

definition lex_max :: "point \<Rightarrow> point \<Rightarrow> point" where
  "lex_max a b = (if lex_le a b then b else a)"

definition segment_meeting :: "point \<times> point \<Rightarrow> point \<times> point \<Rightarrow> meeting" where
  "segment_meeting s t =
     (let p = fst s; q = snd s; u = fst t; v = snd t;
          d = (fst q - fst p) * (snd v - snd u) - (snd q - snd p) * (fst v - fst u)
      in if \<not> segments_meet s t then Apart
         else if d \<noteq> 0 then
           (let c = ((fst u - fst p) * (snd v - snd u) - (snd u - snd p) * (fst v - fst u)) / d
            in Touch (fst p + c * (fst q - fst p), snd p + c * (snd q - snd p)))
         else
           (let lo = lex_max (lex_min p q) (lex_min u v);
                hi = lex_min (lex_max p q) (lex_max u v)
            in if lo = hi then Touch lo else Overlap lo hi))"

fun touches :: "meeting list \<Rightarrow> point list" where
  "touches [] = []"
| "touches (Touch p # ms) = p # touches ms"
| "touches (_ # ms) = touches ms"

fun overlaps :: "meeting list \<Rightarrow> point list list" where
  "overlaps [] = []"
| "overlaps (Overlap a b # ms) = [a, b] # overlaps ms"
| "overlaps (_ # ms) = overlaps ms"

text \<open>
  The class of the result follows shapely: nothing in common is the empty
  \<^verbatim>\<open>GeometryCollection\<close>, one point a \<^verbatim>\<open>Point\<close>, several points a \<^verbatim>\<open>MultiPoint\<close>, shared
  stretches a \<^verbatim>\<open>LineString\<close> or a \<^verbatim>\<open>MultiLineString\<close>, points and stretches together a
  \<^verbatim>\<open>GeometryCollection\<close>. The members of a \<^verbatim>\<open>MultiPoint\<close> are listed along the first
  argument; \<open>swapped\<close> below gives the other order of two members.
\<close>

definition ref_intersection :: "point list \<Rightarrow> point list \<Rightarrow> geometry" where
  "ref_intersection a b =
     (let ms = concat (map (\<lambda>s. map (segment_meeting s) (segments b)) (segments a));
          pts = remdups (touches ms);
          lns = remdups (overlaps ms);
          loose = filter (\<lambda>p. \<not> list_ex (\<lambda>l. on_line l p) lns) pts
      in if lns = [] then
           (case pts of [] \<Rightarrow> GeometryCollection [] | [p] \<Rightarrow> Point p | _ \<Rightarrow> MultiPoint pts)
         else if loose = [] then
           (case lns of [l] \<Rightarrow> LineString l | _ \<Rightarrow> MultiLineString lns)
         else GeometryCollection (map Point loose @ map LineString lns))"

definition dist2 :: "point \<Rightarrow> point \<Rightarrow> real" where
  "dist2 a b = (fst a - fst b)\<^sup>2 + (snd a - snd b)\<^sup>2"

text \<open>The nearest vertex, the earliest one among equally near vertices.\<close>

definition ref_nearest_points :: "point list \<Rightarrow> point \<Rightarrow> point" where
  "ref_nearest_points cs p =
     foldl (\<lambda>best c. if dist2 c p < dist2 best p then c else best) (hd cs) (tl cs)"

text \<open>
  A point is in the interior of a line string when it lies on it and is not one of the
  two ends of an open line string. \<^verbatim>\<open>contains\<close> asks for that, and so does the first test
  of \<^verbatim>\<open>shapely.ops.split\<close>, which returns the line unsplit otherwise, and also when the
  point is the first coordinate. Else \<^verbatim>\<open>split\<close> cuts at the first place where the line
  reaches the point: at a vertex, which ends the first piece and starts the second, or
  inside a segment, where the point becomes the end of one piece and the start of the
  other.
\<close>

definition in_interior :: "point list \<Rightarrow> point \<Rightarrow> bool" where
  "in_interior cs p = (on_line cs p \<and> (hd cs = last cs \<or> (p \<noteq> hd cs \<and> p \<noteq> last cs)))"

fun split_walk :: "point list \<Rightarrow> point list \<Rightarrow> point \<Rightarrow> point list list" where
  "split_walk seen (a # b # rest) p =
     (if p = b then [seen @ [a, b], b # rest]
      else if on_segment a b p then [seen @ [a, p], p # b # rest]
      else split_walk (seen @ [a]) (b # rest) p)"
| "split_walk seen rest p = [seen @ rest]"

definition ref_split :: "point list \<Rightarrow> point \<Rightarrow> point list list" where
  "ref_split cs p =
     (if \<not> in_interior cs p then [cs]
      else if hd cs = p then [cs]
      else split_walk [] cs p)"

text \<open>The distance of a point from a line string is the least distance from a segment.\<close>

definition segment_dist2 :: "point \<times> point \<Rightarrow> point \<Rightarrow> real" where
  "segment_dist2 s p =
     (let a = fst s; b = snd s; l2 = dist2 a b
      in if l2 = 0 then dist2 a p
         else
           (let c = max 0 (min 1 (((fst p - fst a) * (fst b - fst a)
                                   + (snd p - snd a) * (snd b - snd a)) / l2))
            in dist2 (fst a + c * (fst b - fst a), snd a + c * (snd b - snd a)) p))"

definition ref_distance :: "point list \<Rightarrow> point \<Rightarrow> real" where
  "ref_distance cs p =
     (case map (\<lambda>s. segment_dist2 s p) (segments cs) of
        [] \<Rightarrow> 0
      | d # ds \<Rightarrow> sqrt (foldl min d ds))"

definition ref_kernel :: kernel where
  "ref_kernel =
     \<lparr> intersection = ref_intersection,
       intersects = lines_cross,
       nearest_points = ref_nearest_points,
       split = ref_split,
       distance = ref_distance,
       contains = in_interior \<rparr>"

definition swapped :: "kernel \<Rightarrow> kernel" where
  "swapped k =
     k\<lparr>intersection :=
         (\<lambda>a b. case intersection k a b of MultiPoint ps \<Rightarrow> MultiPoint (rev ps) | g \<Rightarrow> g)\<rparr>"

section \<open>The resolver's result and the words of the specification\<close>

text \<open>
  \<open>canonical\<close> is the point that the code computes for a cluster: the members are rounded
  first (line 1117), then the mean of the rounded members is rounded (lines 1123-1124).
  \<open>within_tolerance\<close> is the test of line 1120 applied to every member: every rounded
  member within one pixel per axis of the first rounded member.
\<close>

definition canonical :: "point list \<Rightarrow> point" where
  "canonical rows =
     (np_round (mean (map fst (map round_point rows))),
      np_round (mean (map snd (map round_point rows))))"

definition within_tolerance :: "point list \<Rightarrow> bool" where
  "within_tolerance rows =
     list_all (\<lambda>q. \<bar>fst q - fst (round_point (hd rows))\<bar> \<le> 1
                 \<and> \<bar>snd q - snd (round_point (hd rows))\<bar> \<le> 1) (map round_point rows)"



text \<open>A slot rejects when it reports a code; it outputs a curve when it emits one.\<close>

definition rejects :: "outcome \<Rightarrow> bool" where
  "rejects r = list_ex is_ask_redraw (fst r)"

definition outputs_curve :: "outcome \<Rightarrow> bool" where
  "outputs_curve r = list_ex is_new_coords (fst r)"

section \<open>Parts of the split and properties of steps\<close>

text \<open>
  The tail of \<open>split_steps\<close> after \<open>split2\<close> is bound, and its tail after the first member
  of \<open>multi\<close> is chosen; a step is settled when its signals do not hold both a code and a
  curve, and curveless when they hold no curve.
\<close>

definition parent_steps ::
  "kernel \<Rightarrow> point list list \<Rightarrow> point \<Rightarrow> point list \<Rightarrow> point list list \<Rightarrow> unit step" where
  "parent_steps k split1_old crosspoint2_old maincell multi =
     then_do (second_split k split1_old crosspoint2_old crosspoint2_old) (\<lambda>split2_old.
     then_do (keep_arc k split2_old maincell multi) stitch)"

definition line_steps ::
  "kernel \<Rightarrow> point list list option \<Rightarrow> point \<Rightarrow> point \<Rightarrow> point list list \<Rightarrow> point
     \<Rightarrow> point list \<Rightarrow> unit step" where
  "line_steps k split2 crosspoint1 crosspoint2 split1_old crosspoint2_old maincell =
     then_do (keep_line k split2 crosspoint1 crosspoint2)
       (\<lambda>multi. parent_steps k split1_old crosspoint2_old maincell multi)"

definition settled :: "'a step \<Rightarrow> bool" where
  "settled m = (\<not> (list_ex is_ask_redraw (fst m) \<and> list_ex is_new_coords (fst m)))"

definition curveless :: "'a step \<Rightarrow> bool" where
  "curveless m = (\<not> list_ex is_new_coords (fst m))"

section \<open>Concrete inputs\<close>

definition square_gesture :: "point list" where
  "square_gesture = [(0, 0), (10, 0), (10, 10), (0, 10)]"

definition square_parent :: "point list" where
  "square_parent = [(0, 0), (10, 0), (10, 10), (0, 10), (0, 0)]"

definition corner_cut :: "point list" where
  "corner_cut = [(7, 12), (8, 11), (11, 8), (12, 7)]"

definition six_parent :: "point list" where
  "six_parent = [(0, 0), (4, 0), (10, 0), (10, 10), (4, 10), (0, 10), (0, 0)]"

definition straight_cut :: "point list" where
  "straight_cut = [(5, - 2), (5, - 1), (5, 11), (5, 12)]"

definition far_gesture :: "point list" where
  "far_gesture = [(20, 20), (30, 30), (40, 20), (50, 30)]"

definition short_gesture :: "point list" where
  "short_gesture = [(20, 20), (30, 30), (40, 20)]"

definition touching_gesture :: "point list" where
  "touching_gesture = [(5, - 3), (5, - 2), (5, - 1), (5, 0)]"

definition zigzag_gesture :: "point list" where
  "zigzag_gesture = [(2, - 2), (2, 2), (4, - 2), (6, 2)]"

text \<open>
  A canvas with a parent at address 0 that holds the six-point ring, and its child at address 1,
  the current object, which already holds a curve.
\<close>

definition family :: "nat \<Rightarrow> object" where
  "family a =
     (if a = 0 then \<lparr>obj_x = Some (map fst six_parent), obj_y = Some (map snd six_parent),
                     obj_parent = None\<rparr>
      else \<lparr>obj_x = Some [1, 2, 1], obj_y = Some [1, 1, 2], obj_parent = Some 0\<rparr>)"

definition child_canvas :: canvas where
  "child_canvas = \<lparr>currentObject = 1, objects = family, repeatdraw = True\<rparr>"

text \<open>The same canvas with a child that holds no curve yet.\<close>

definition fresh_canvas :: canvas where
  "fresh_canvas =
     \<lparr>currentObject = 1,
      objects = family(1 := \<lparr>obj_x = None, obj_y = None, obj_parent = Some 0\<rparr>),
      repeatdraw = False\<rparr>"


section \<open>Evaluation of the model\<close>

lemma sqrt_less_iff: "0 < c \<Longrightarrow> (sqrt v < c) = (v < c\<^sup>2)"
  by (metis real_sqrt_less_iff real_sqrt_abs abs_of_pos)

lemmas geometry_defs =
  segments_def segment_meeting_def segments_meet_def orient_def on_segment_def lex_le_def
  lex_min_def lex_max_def on_line_def Let_def ref_intersection_def ref_nearest_points_def
  dist2_def in_interior_def ref_split_def segment_dist2_def ref_distance_def lines_cross_def
  point_distance_def sqrt_less_iff

lemmas flow_defs =
  then_do_def emit_def attempt_def item_def finish_def pyidx_def pylast_def new_LineString_def

lemmas resolver_defs = resolve_rows_def pyidx_def round_point_def np_round_def mean_def

text \<open>
  To run a slot on a concrete input the simplifier evaluates a step before it enters the
  steps that follow it.
\<close>

lemma then_do_weak_cong: "m = m' \<Longrightarrow> then_do m f = then_do m' f"
  by simp

lemma then_do_run:
  "then_do ([], Next v) f = f v"
  "then_do (s, Next v) f = (case f v of (s', r) \<Rightarrow> (s @ s', r))"
  "then_do (s, Raise e) f = (s, Raise e)"
  "then_do (s, Return) f = (s, Return)"
  by (simp_all add: then_do_def split: prod.splits)

lemma then_do_fst: "fst (then_do (s, Next v) f) = s @ fst (f v)"
  by (simp add: then_do_def split: prod.splits)

lemmas run_defs =
  get_multi_area_def split_steps_def second_split_def keep_line_def keep_arc_def stitch_def
  emit_def attempt_def item_def finish_def pyidx_def pylast_def new_LineString_def then_do_run

lemma ref_kernel_sel:
  "intersection ref_kernel = ref_intersection"
  "intersects ref_kernel = lines_cross"
  "nearest_points ref_kernel = ref_nearest_points"
  "split ref_kernel = ref_split"
  "distance ref_kernel = ref_distance"
  "contains ref_kernel = in_interior"
  by (simp_all add: ref_kernel_def)

lemma swapped_sel:
  "intersection (swapped k) =
     (\<lambda>a b. case intersection k a b of MultiPoint ps \<Rightarrow> MultiPoint (rev ps) | g \<Rightarrow> g)"
  "intersects (swapped k) = intersects k"
  "nearest_points (swapped k) = nearest_points k"
  "split (swapped k) = split k"
  "distance (swapped k) = distance k"
  "contains (swapped k) = contains k"
  by (simp_all add: swapped_def)

section \<open>The IntersectionResolver\<close>

lemma np_round_Ints: "np_round v \<in> \<int>"
  by (simp add: np_round_def Let_def)

text \<open>
  The first row is compared with itself, so a non-empty list of rows is never rejected.
\<close>

lemma resolve_rows_nonempty: "rows \<noteq> [] \<Longrightarrow> resolve_rows rows = Inr (canonical rows)"
  by (cases rows) (simp_all add: resolve_rows_def pyidx_def canonical_def)

lemma resolve_rows_empty: "resolve_rows [] = Inl IndexError"
  by (simp add: resolve_rows_def pyidx_def)

lemma resolve_rows_Ints: "resolve_rows rows = Inr q \<Longrightarrow> fst q \<in> \<int> \<and> snd q \<in> \<int>"
  by (cases rows) (auto simp: resolve_rows_def pyidx_def np_round_Ints)

lemma get_intersection_point_Ints:
  "get_intersection_point g = Inr q \<Longrightarrow> \<forall>p. g \<noteq> Point p \<Longrightarrow> fst q \<in> \<int> \<and> snd q \<in> \<int>"
  by (cases g) (auto simp: resolve_rows_Ints split: if_splits sum.splits)


text \<open>
  Claim C4, as amended. A single \<^verbatim>\<open>Point\<close> is accepted as it is, without rounding. A
  \<^verbatim>\<open>MultiPoint\<close> or a \<^verbatim>\<open>LineString\<close> whose rounded members all lie within one pixel per axis
  of the first is accepted, with the rounded mean of the rounded members as the result.
  A \<^verbatim>\<open>MultiLineString\<close> is resolved member by member, and the results are resolved as a
  point set. Every point returned for an argument other than a \<^verbatim>\<open>Point\<close> has integer
  coordinates. Any other class of argument is rejected with ValueError.
\<close>

theorem get_intersection_point_contract:
  "get_intersection_point (Point p) = Inr p
   \<and> (rows \<noteq> [] \<and> within_tolerance rows \<longrightarrow>
        get_intersection_point (MultiPoint rows) = Inr (canonical rows)
        \<and> get_intersection_point (LineString rows) = Inr (canonical rows))
   \<and> (ls \<noteq> [] \<longrightarrow>
        get_intersection_point (MultiLineString ls) =
          (case collect (map (\<lambda>l. get_intersection_point (LineString l)) ls) of
             Inl e \<Rightarrow> Inl e
           | Inr tmp \<Rightarrow> get_intersection_point (MultiPoint tmp)))
   \<and> ((\<forall>p. g \<noteq> Point p) \<and> get_intersection_point g = Inr q \<longrightarrow> fst q \<in> \<int> \<and> snd q \<in> \<int>)
   \<and> get_intersection_point (GeometryCollection gs) = Inl ValueError"
  using resolve_rows_nonempty[of rows] get_intersection_point_Ints[of g q]
  by (simp split: sum.splits)

theorem get_intersection_point_contract_witness:
  "get_intersection_point (Point (1 / 2, 1 / 4)) = Inr (1 / 2, 1 / 4)
   \<and> [(3 / 8, 0), (11 / 8, 0)] \<noteq> [] \<and> within_tolerance [(3 / 8, 0), (11 / 8, 0)]
   \<and> get_intersection_point (MultiPoint [(3 / 8, 0), (11 / 8, 0)]) = Inr (0, 0)
   \<and> get_intersection_point (LineString [(3 / 8, 0), (11 / 8, 0)]) = Inr (0, 0)
   \<and> get_intersection_point (MultiLineString [[(0, 0), (1, 0)], [(2, 0), (2, 1)]]) = Inr (1, 0)
   \<and> get_intersection_point (GeometryCollection []) = Inl ValueError"
  using get_intersection_point_contract
    [of "(1 / 2, 1 / 4)" "[(3 / 8, 0), (11 / 8, 0)]" "[[(0, 0), (1, 0)], [(2, 0), (2, 1)]]"
        "MultiPoint [(3 / 8, 0), (11 / 8, 0)]" "(0, 0)" "[]"]
  by (simp add: within_tolerance_def canonical_def resolver_defs)

text \<open>
  Claim C4 as the specification states it fails at each of these inputs: the point
  \<open>(1/2, 1/4)\<close> is returned unrounded; the members \<open>(0, 0)\<close> and \<open>(4, 4)\<close> are four pixels
  apart and yet accepted; the mean of \<open>3/8\<close> and \<open>11/8\<close> is \<open>7/8\<close>, which rounds to 1, but
  the result is 0; a \<^verbatim>\<open>LineString\<close> and a \<^verbatim>\<open>MultiLineString\<close> are accepted.
\<close>

theorem get_intersection_point_counterexample:
  "get_intersection_point (Point (1 / 2, 1 / 4)) = Inr (1 / 2, 1 / 4)
   \<and> get_intersection_point (MultiPoint [(0, 0), (4, 4)]) = Inr (2, 2)
   \<and> get_intersection_point (MultiPoint [(3 / 8, 0), (11 / 8, 0)]) = Inr (0, 0)
   \<and> np_round (mean [3 / 8, 11 / 8]) = 1
   \<and> get_intersection_point (LineString [(0, 0), (1, 0)]) = Inr (0, 0)
   \<and> get_intersection_point (MultiLineString [[(0, 0), (1, 0)]]) = Inr (0, 0)"
  by (simp add: resolver_defs)




section \<open>The LoopCloser\<close>

lemma first_segment: "2 \<le> length cs \<Longrightarrow> (hd cs, cs ! 1) \<in> set (segments cs)"
  by (cases cs; cases "tl cs") (auto simp: segments_def)

lemma last_segment:
  assumes "2 \<le> length cs"
  shows "(cs ! (length cs - 2), last cs) \<in> set (segments cs)"
proof -
  define i where "i = length cs - 2"
  have i: "i < length cs" "i < length (tl cs)" "Suc i = length cs - 1"
    using assms by (auto simp: i_def)
  have "cs \<noteq> []"
    using assms by auto
  then have "tl cs ! i = last cs"
    using i by (simp add: nth_tl last_conv_nth)
  moreover have "(cs ! i, tl cs ! i) \<in> set (zip cs (tl cs))"
    using i by (auto simp: set_zip)
  ultimately show ?thesis
    by (simp add: segments_def i_def)
qed

lemma on_segment_end: "on_segment u v v"
  by (simp add: on_segment_def orient_def)

text \<open>A line string that starts where another one ends has a point in common with it.\<close>

lemma shared_end_cross:
  assumes "2 \<le> length a" and "2 \<le> length b" and "hd a = last b"
  shows "lines_cross a b"
proof -
  have "segments_meet (hd a, a ! 1) (b ! (length b - 2), last b)"
    using assms(3) on_segment_end[of "b ! (length b - 2)" "last b"]
    by (simp add: segments_meet_def Let_def)
  then show ?thesis
    using first_segment[OF assms(1)] last_segment[OF assms(2)]
    by (auto simp: lines_cross_def list_ex_iff)
qed

text \<open>
  The reference kernel answers the empty collection exactly for line strings with no
  point in common.
\<close>

lemma no_meeting: "(touches ms = [] \<and> overlaps ms = []) = (\<forall>m \<in> set ms. m = Apart)"
proof (induction ms)
  case Nil
  then show ?case by simp
next
  case (Cons m ms)
  then show ?case by (cases m) auto
qed

lemma segment_meeting_Apart: "(segment_meeting s t = Apart) = (\<not> segments_meet s t)"
  by (simp add: segment_meeting_def Let_def)

lemma ref_intersection_empty:
  "(ref_intersection a b = GeometryCollection []) = (\<not> lines_cross a b)"
proof -
  define ms where "ms = concat (map (\<lambda>s. map (segment_meeting s) (segments b)) (segments a))"
  have apart: "(\<forall>m \<in> set ms. m = Apart) = (\<not> lines_cross a b)"
    by (auto simp: ms_def lines_cross_def list_ex_iff segment_meeting_Apart)
  have "(ref_intersection a b = GeometryCollection []) = (touches ms = [] \<and> overlaps ms = [])"
    unfolding ref_intersection_def ms_def[symmetric] Let_def
    by (auto split: list.splits)
  then show ?thesis
    using no_meeting[of ms] apart by simp
qed

lemma array_split_parts:
  assumes "4 \<le> length xs"
  shows "2 \<le> length (fst (array_split xs))" and "2 \<le> length (snd (array_split xs))"
    and "hd (fst (array_split xs)) = hd xs" and "last (snd (array_split xs)) = last xs"
  using assms by (auto simp: array_split_def)

text \<open>
  Claim C1. For a gesture of at least four points whose halves have no point in common,
  which shapely reports as the empty collection, the slot emits the points of the gesture
  in their order, followed by the first point, and returns. The halves are those of
  \<open>array_split\<close>: the first \<open>\<lceil>n/2\<rceil>\<close> points and the rest.
\<close>

theorem get_lasso_area_simple_loop:
  assumes "4 \<le> length lasso"
    and "\<not> lines_cross (fst (array_split lasso)) (snd (array_split lasso))"
    and "(intersection k (fst (array_split lasso)) (snd (array_split lasso)) = GeometryCollection [])
         = (\<not> lines_cross (fst (array_split lasso)) (snd (array_split lasso)))"
  shows "get_lasso_area k lasso =
           ([new_coords (map fst (lasso @ [hd lasso])) (map snd (lasso @ [hd lasso]))], None)"
proof -
  have "hd lasso \<noteq> last lasso"
    using shared_end_cross[of "fst (array_split lasso)" "snd (array_split lasso)"]
      array_split_parts[OF assms(1)] assms(2) by auto
  moreover have
    "intersection k (fst (array_split lasso)) (snd (array_split lasso)) = GeometryCollection []"
    using assms(2,3) by simp
  ultimately show ?thesis
    using assms(1)
    by (simp add: get_lasso_area_def LinearRing_def then_do_def emit_def finish_def)
qed

theorem get_lasso_area_simple_loop_witness:
  "4 \<le> length square_gesture
   \<and> array_split square_gesture = ([(0, 0), (10, 0)], [(10, 10), (0, 10)])
   \<and> \<not> lines_cross [(0, 0), (10, 0)] [(10, 10), (0, 10)]
   \<and> intersection ref_kernel [(0, 0), (10, 0)] [(10, 10), (0, 10)] = GeometryCollection []
   \<and> get_lasso_area ref_kernel square_gesture =
       ([new_coords [0, 10, 10, 0, 0] [0, 0, 10, 10, 0]], None)"
  using get_lasso_area_simple_loop[of square_gesture ref_kernel]
  by (simp add: square_gesture_def array_split_def ref_kernel_sel geometry_defs)

text \<open>
  Claim C10. With fewer than four points in the gesture both slots return at once: no
  signal is emitted, neither a curve nor a code, and nothing is raised.
\<close>

theorem short_gesture_silent:
  "length lasso < 4 \<Longrightarrow>
     get_lasso_area k lasso = ([], None) \<and> get_multi_area k parent lasso = ([], None)"
  by (simp add: get_lasso_area_def get_multi_area_def finish_def)

theorem short_gesture_silent_witness:
  "length short_gesture < 4
   \<and> get_lasso_area ref_kernel short_gesture = ([], None)
   \<and> get_multi_area ref_kernel square_parent short_gesture = ([], None)"
  using short_gesture_silent[of short_gesture ref_kernel square_parent]
  by (simp add: short_gesture_def)


section \<open>The RegionSplitter\<close>

subsection \<open>What each step can do\<close>

lemma resolve_crosspoints_points: "resolve_crosspoints ps = ([], Next ps)"
  by (induction ps) (simp_all add: then_do_def)

lemma second_split_cases:
  "(\<exists>pieces. second_split k split1 locus c = ([], Next (Some pieces)))
   \<or> (\<exists>e. second_split k split1 locus c = ([], Raise e))
   \<or> second_split k split1 locus c = ([ask_redraw 0], Next None)"
  by (simp add: second_split_def flow_defs)

lemma keep_line_cases:
  "(\<exists>piece. keep_line k split2 c1 c2 = ([], Next [piece]))
   \<or> (\<exists>e. keep_line k split2 c1 c2 = ([], Raise e))
   \<or> keep_line k split2 c1 c2 = ([ask_redraw 0], Next [])"
  by (simp add: keep_line_def flow_defs split: option.splits)

lemma keep_line_unbound: "keep_line k None c1 c2 = ([], Raise UnboundLocalError)"
  by (simp add: keep_line_def)

lemma keep_arc_cases:
  "(\<exists>piece. keep_arc k split2_old maincell multi = ([], Next (multi @ [piece])))
   \<or> (\<exists>e. keep_arc k split2_old maincell multi = ([], Raise e))
   \<or> keep_arc k split2_old maincell multi = ([ask_redraw 0], Next multi)"
  by (simp add: keep_arc_def flow_defs split: option.splits)

lemma keep_arc_unbound: "keep_arc k None maincell multi = ([], Raise UnboundLocalError)"
  by (simp add: keep_arc_def)

lemma stitch_short: "length multi < 2 \<Longrightarrow> stitch multi = ([], Raise IndexError)"
  by (cases multi; cases "tl multi") (simp_all add: stitch_def flow_defs)

lemma stitch_cases:
  "(\<exists>e. stitch multi = ([], Raise e)) \<or> (\<exists>xs ys. stitch multi = ([new_coords xs ys], Next ()))"
  by (simp add: stitch_def flow_defs Let_def)

lemma stitch_no_code: "\<not> list_ex is_ask_redraw (fst (stitch multi))"
  using stitch_cases[of multi] by auto

text \<open>
  The curve that \<open>stitch\<close> emits is the first member of \<open>multi\<close> followed by the second,
  forwards or backwards, and nothing more: no closing point is appended.
\<close>

lemma stitch_output:
  assumes "stitch multi = ([new_coords xs ys], r)"
  shows "zip xs ys = multi ! 0 @ multi ! 1 \<or> zip xs ys = multi ! 0 @ rev (multi ! 1)"
  using assms
  by (auto simp: stitch_def flow_defs Let_def zip_map_fst_snd split: if_splits)

text \<open>
  When neither piece of the first split is within 0.1 of the locus, code 0 is emitted,
  \<open>split2\<close> stays unbound and the next statement raises.
\<close>

lemma unbound_split2_raises:
  assumes "split1 = [piece0, piece1]"
    and "\<not> distance k piece0 locus < 1 / 10" and "\<not> distance k piece1 locus < 1 / 10"
  shows "then_do (second_split k split1 locus c2) (\<lambda>split2. then_do (keep_line k split2 c1 c2) f)
         = ([ask_redraw 0], Raise UnboundLocalError)"
  using assms by (simp add: second_split_def keep_line_def flow_defs)

subsection \<open>A code and a curve never come together\<close>

text \<open>
  After code 0 the slot goes on, but never as far as the emission of a curve: an unbound
  variable or a missing member of \<open>multi\<close> raises first.
\<close>

lemma arc_stitch_settled:
  assumes "length multi \<le> 1"
  shows "settled (then_do (keep_arc k sp mc multi) stitch)"
proof -
  consider (kept) piece where "keep_arc k sp mc multi = ([], Next (multi @ [piece]))"
    | (raised) e where "keep_arc k sp mc multi = ([], Raise e)"
    | (code) "keep_arc k sp mc multi = ([ask_redraw 0], Next multi)"
    using keep_arc_cases[of k sp mc multi] by blast
  then show ?thesis
  proof cases
    case kept
    then show ?thesis
      using stitch_no_code[of "multi @ [piece]"] by (simp add: settled_def then_do_run)
  next
    case raised
    then show ?thesis by (simp add: settled_def then_do_run)
  next
    case code
    then show ?thesis
      using stitch_short[of multi] assms by (simp add: settled_def then_do_fst)
  qed
qed

lemma arc_stitch_curveless:
  assumes "multi = []"
  shows "curveless (then_do (keep_arc k sp mc multi) stitch)"
proof -
  consider (kept) piece where "keep_arc k sp mc multi = ([], Next (multi @ [piece]))"
    | (raised) e where "keep_arc k sp mc multi = ([], Raise e)"
    | (code) "keep_arc k sp mc multi = ([ask_redraw 0], Next multi)"
    using keep_arc_cases[of k sp mc multi] by blast
  then show ?thesis
  proof cases
    case kept
    then show ?thesis
      using stitch_short[of "[piece]"] assms by (simp add: curveless_def then_do_run)
  next
    case raised
    then show ?thesis by (simp add: curveless_def then_do_run)
  next
    case code
    then show ?thesis
      using stitch_short[of multi] assms by (simp add: curveless_def then_do_fst)
  qed
qed

lemma parent_steps_settled:
  assumes "length multi \<le> 1"
  shows "settled (parent_steps k split1_old c mc multi)"
proof -
  consider (split) pieces where "second_split k split1_old c c = ([], Next (Some pieces))"
    | (raised) e where "second_split k split1_old c c = ([], Raise e)"
    | (code) "second_split k split1_old c c = ([ask_redraw 0], Next None)"
    using second_split_cases[of k split1_old c c] by blast
  then show ?thesis
  proof cases
    case split
    then show ?thesis
      using arc_stitch_settled[OF assms, of k "Some pieces" mc]
      by (simp add: parent_steps_def settled_def then_do_run)
  next
    case raised
    then show ?thesis by (simp add: parent_steps_def settled_def then_do_run)
  next
    case code
    then show ?thesis
      by (simp add: parent_steps_def settled_def then_do_fst then_do_run keep_arc_unbound)
  qed
qed

lemma parent_steps_curveless:
  assumes "multi = []"
  shows "curveless (parent_steps k split1_old c mc multi)"
proof -
  consider (split) pieces where "second_split k split1_old c c = ([], Next (Some pieces))"
    | (raised) e where "second_split k split1_old c c = ([], Raise e)"
    | (code) "second_split k split1_old c c = ([ask_redraw 0], Next None)"
    using second_split_cases[of k split1_old c c] by blast
  then show ?thesis
  proof cases
    case split
    then show ?thesis
      using arc_stitch_curveless[OF assms, of k "Some pieces" mc]
      by (simp add: parent_steps_def curveless_def then_do_run)
  next
    case raised
    then show ?thesis by (simp add: parent_steps_def curveless_def then_do_run)
  next
    case code
    then show ?thesis
      by (simp add: parent_steps_def curveless_def then_do_fst then_do_run keep_arc_unbound)
  qed
qed

lemma line_steps_settled: "settled (line_steps k split2 c1 c2 split1_old c mc)"
proof -
  consider (kept) piece where "keep_line k split2 c1 c2 = ([], Next [piece])"
    | (raised) e where "keep_line k split2 c1 c2 = ([], Raise e)"
    | (code) "keep_line k split2 c1 c2 = ([ask_redraw 0], Next [])"
    using keep_line_cases[of k split2 c1 c2] by blast
  then show ?thesis
  proof cases
    case kept
    then show ?thesis
      using parent_steps_settled[of "[piece]" k split1_old c mc]
      by (simp add: line_steps_def settled_def then_do_run)
  next
    case raised
    then show ?thesis by (simp add: line_steps_def settled_def then_do_run)
  next
    case code
    then show ?thesis
      using parent_steps_curveless[of "[]" k split1_old c mc]
      by (simp add: line_steps_def settled_def curveless_def then_do_fst)
  qed
qed

lemma split_steps_unfold:
  "split_steps k maincell newline crosspoint_temp =
     then_do (item crosspoint_temp 0) (\<lambda>locus1.
     then_do (item crosspoint_temp 1) (\<lambda>locus2.
     then_do (second_split k (split k newline (nearest_points k newline locus1)) locus2
                (nearest_points k newline locus2)) (\<lambda>split2.
       line_steps k split2 (nearest_points k newline locus1) (nearest_points k newline locus2)
         (split k maincell (nearest_points k maincell locus1))
         (nearest_points k maincell locus2) maincell)))"
  by (simp add: split_steps_def line_steps_def parent_steps_def resolve_crosspoints_points
      then_do_run Let_def)

lemma split_steps_settled: "settled (split_steps k maincell newline crosspoint_temp)"
proof (cases "length crosspoint_temp < 2")
  case True
  then show ?thesis
    by (cases crosspoint_temp; cases "tl crosspoint_temp")
       (simp_all add: split_steps_unfold settled_def item_def attempt_def pyidx_def then_do_run)
next
  case False
  define l1 where "l1 = crosspoint_temp ! 0"
  define l2 where "l2 = crosspoint_temp ! 1"
  define S where "S = second_split k (split k newline (nearest_points k newline l1)) l2
                        (nearest_points k newline l2)"
  define L where "L = (\<lambda>split2. line_steps k split2 (nearest_points k newline l1)
                        (nearest_points k newline l2)
                        (split k maincell (nearest_points k maincell l1))
                        (nearest_points k maincell l2) maincell)"
  have eq: "split_steps k maincell newline crosspoint_temp = then_do S L"
  proof -
    have "0 < length crosspoint_temp" and "1 < length crosspoint_temp"
      using False by auto
    then show ?thesis
      by (simp add: split_steps_unfold item_def attempt_def pyidx_def then_do_run
          l1_def l2_def S_def L_def)
  qed
  consider (split) pieces where "S = ([], Next (Some pieces))"
    | (raised) e where "S = ([], Raise e)"
    | (code) "S = ([ask_redraw 0], Next None)"
    unfolding S_def using second_split_cases by blast
  then show ?thesis
  proof cases
    case split
    then show ?thesis
      using line_steps_settled[of k "Some pieces"] by (simp add: eq L_def settled_def then_do_run)
  next
    case raised
    then show ?thesis by (simp add: eq settled_def then_do_run)
  next
    case code
    then show ?thesis
      by (simp add: eq L_def line_steps_def settled_def then_do_fst then_do_run keep_line_unbound)
  qed
qed

lemma finish_fst: "fst (finish m) = fst m"
  by (simp add: finish_def split: prod.splits flow.splits)

lemma get_multi_area_settled:
  "\<not> (rejects (get_multi_area k parent lasso) \<and> outputs_curve (get_multi_area k parent lasso))"
  using split_steps_settled[of k parent lasso]
  by (auto simp: get_multi_area_def rejects_def outputs_curve_def finish_fst settled_def
      then_do_def emit_def attempt_def new_LineString_def split: geometry.splits prod.splits)

lemma get_lasso_area_settled:
  "\<not> (rejects (get_lasso_area k lasso) \<and> outputs_curve (get_lasso_area k lasso))"
  by (auto simp: get_lasso_area_def rejects_def outputs_curve_def finish_fst Let_def
      then_do_def emit_def split: geometry.splits prod.splits sum.splits error.splits list.splits)

subsection \<open>The slots on the concrete inputs\<close>

lemma far_gesture_run:
  "\<not> intersects ref_kernel far_gesture square_parent"
  "get_multi_area ref_kernel square_parent far_gesture = ([ask_redraw 2], None)"
  "\<not> intersects ref_kernel far_gesture six_parent"
  "get_multi_area ref_kernel six_parent far_gesture = ([ask_redraw 2], None)"
  by (simp_all add: run_defs ref_kernel_sel geometry_defs far_gesture_def square_parent_def
      six_parent_def cong: then_do_weak_cong let_weak_cong)

lemma touching_gesture_run:
  "intersects ref_kernel touching_gesture square_parent"
  "intersection ref_kernel square_parent touching_gesture = Point (5, 0)"
  "get_multi_area ref_kernel square_parent touching_gesture = ([ask_redraw 2], None)"
  by (simp_all add: run_defs ref_kernel_sel geometry_defs touching_gesture_def square_parent_def
      cong: then_do_weak_cong let_weak_cong)

lemma zigzag_gesture_run:
  "intersects ref_kernel zigzag_gesture square_parent"
  "intersection ref_kernel square_parent zigzag_gesture = MultiPoint [(2, 0), (3, 0), (5, 0)]"
  "get_multi_area ref_kernel square_parent zigzag_gesture = ([ask_redraw 4], None)"
  by (simp_all add: run_defs ref_kernel_sel geometry_defs zigzag_gesture_def square_parent_def
      cong: then_do_weak_cong let_weak_cong)

lemma corner_cut_run:
  "intersects ref_kernel corner_cut square_parent"
  "intersection ref_kernel square_parent corner_cut = MultiPoint [(10, 9), (9, 10)]"
  "get_multi_area ref_kernel square_parent corner_cut = ([], Some IndexError)"
  by (simp_all add: run_defs ref_kernel_sel geometry_defs corner_cut_def square_parent_def
      cong: then_do_weak_cong let_weak_cong)

lemma straight_cut_run:
  "intersection ref_kernel six_parent straight_cut = MultiPoint [(5, 0), (5, 10)]"
  "get_multi_area ref_kernel six_parent straight_cut =
     ([new_coords [5, 5, 4, 10, 10, 4] [- 1, 11, 10, 10, 0, 0]], None)"
  by (simp_all add: run_defs ref_kernel_sel geometry_defs straight_cut_def six_parent_def
      cong: then_do_weak_cong let_weak_cong)

lemma example_lengths:
  "length far_gesture = 4" "length touching_gesture = 4" "length zigzag_gesture = 4"
  "length corner_cut = 4" "length straight_cut = 4" "length short_gesture = 3"
  "length square_parent = 5" "length six_parent = 7"
  by (simp_all add: far_gesture_def touching_gesture_def zigzag_gesture_def corner_cut_def
      straight_cut_def short_gesture_def square_parent_def six_parent_def)

subsection \<open>The crossing checks\<close>

text \<open>
  Claim C3, as amended: for a gesture of at least four points, and a parent that is not a
  single point. The slot reports code 2 and returns when the gesture does not intersect
  the parent, and when the intersection is of any class but \<^verbatim>\<open>MultiPoint\<close> (a single
  point, an overlap); it reports code 4 and returns when the \<^verbatim>\<open>MultiPoint\<close> has more than
  two members. Whenever the outcome is neither of the two, the intersection is a
  \<^verbatim>\<open>MultiPoint\<close> of at most two members, and with fewer than two members the slot dies
  with IndexError at once: the steps of the split run only with exactly two loci.
\<close>

theorem get_multi_area_crossing_checks:
  assumes "4 \<le> length lasso" and "length parent \<noteq> 1"
  shows "(\<not> intersects k lasso parent \<longrightarrow>
            get_multi_area k parent lasso = ([ask_redraw 2], None))
       \<and> (intersects k lasso parent \<and> (\<forall>ps. intersection k parent lasso \<noteq> MultiPoint ps) \<longrightarrow>
            get_multi_area k parent lasso = ([ask_redraw 2], None))
       \<and> (intersects k lasso parent \<and> intersection k parent lasso = MultiPoint ps
            \<and> 2 < length ps \<longrightarrow>
            get_multi_area k parent lasso = ([ask_redraw 4], None))
       \<and> (get_multi_area k parent lasso \<noteq> ([ask_redraw 2], None)
            \<and> get_multi_area k parent lasso \<noteq> ([ask_redraw 4], None) \<longrightarrow>
            intersects k lasso parent
            \<and> (\<exists>qs. intersection k parent lasso = MultiPoint qs \<and> length qs \<le> 2
                    \<and> (length qs < 2 \<longrightarrow>
                          get_multi_area k parent lasso = ([], Some IndexError))))"
proof -
  have none: "get_multi_area k parent lasso = ([ask_redraw 2], None)"
    if "\<not> intersects k lasso parent"
    using assms that by (simp add: get_multi_area_def flow_defs)
  have other: "get_multi_area k parent lasso = ([ask_redraw 2], None)"
    if "intersects k lasso parent" and "\<forall>ps. intersection k parent lasso \<noteq> MultiPoint ps"
    using assms that
    by (cases "intersection k parent lasso") (simp_all add: get_multi_area_def flow_defs)
  have many: "get_multi_area k parent lasso = ([ask_redraw 4], None)"
    if "intersects k lasso parent" and "intersection k parent lasso = MultiPoint qs"
      and "2 < length qs" for qs
    using assms that by (simp add: get_multi_area_def flow_defs)
  have few: "get_multi_area k parent lasso = ([], Some IndexError)"
    if "intersects k lasso parent" and "intersection k parent lasso = MultiPoint qs"
      and "length qs < 2" for qs
    using assms that
    by (cases qs; cases "tl qs") (simp_all add: get_multi_area_def split_steps_def flow_defs)
  show ?thesis
    using none other many few by (metis not_le_imp_less)
qed

theorem get_multi_area_crossing_checks_witness:
  "4 \<le> length far_gesture \<and> length square_parent \<noteq> 1
   \<and> \<not> intersects ref_kernel far_gesture square_parent
   \<and> get_multi_area ref_kernel square_parent far_gesture = ([ask_redraw 2], None)
   \<and> intersects ref_kernel touching_gesture square_parent
   \<and> intersection ref_kernel square_parent touching_gesture = Point (5, 0)
   \<and> get_multi_area ref_kernel square_parent touching_gesture = ([ask_redraw 2], None)
   \<and> intersects ref_kernel zigzag_gesture square_parent
   \<and> intersection ref_kernel square_parent zigzag_gesture = MultiPoint [(2, 0), (3, 0), (5, 0)]
   \<and> get_multi_area ref_kernel square_parent zigzag_gesture = ([ask_redraw 4], None)
   \<and> get_multi_area ref_kernel square_parent corner_cut = ([], Some IndexError)
   \<and> intersects ref_kernel corner_cut square_parent
   \<and> intersection ref_kernel square_parent corner_cut = MultiPoint [(10, 9), (9, 10)]"
  using get_multi_area_crossing_checks[of far_gesture square_parent ref_kernel "[]"]
    get_multi_area_crossing_checks[of touching_gesture square_parent ref_kernel "[]"]
    get_multi_area_crossing_checks
      [of zigzag_gesture square_parent ref_kernel "[(2, 0), (3, 0), (5, 0)]"]
    get_multi_area_crossing_checks[of corner_cut square_parent ref_kernel "[]"]
  by (simp add: far_gesture_run touching_gesture_run zigzag_gesture_run corner_cut_run
      example_lengths)

text \<open>
  Claim C3 as the specification states it, for every gesture, fails at a gesture of three
  points that does not touch the parent: the slot returns without a code.
\<close>

theorem get_multi_area_short_counterexample:
  "\<not> intersects ref_kernel short_gesture square_parent
   \<and> get_multi_area ref_kernel square_parent short_gesture = ([], None)"
  by (simp add: get_multi_area_def finish_def short_gesture_def square_parent_def
      ref_kernel_sel geometry_defs)

subsection \<open>The child curve\<close>

text \<open>
  Claim C5 fails on the code. The straight cut crosses the six-point ring at \<open>(5, 0)\<close> and
  \<open>(5, 10)\<close>, whichever of the two shapely lists first, the split is accepted, and the
  curve emitted runs from \<open>(5, -1)\<close> to \<open>(4, 0)\<close>: its last coordinate is not its first.
  \<open>get_lasso_area\<close> appends the first coordinate before it emits, \<open>get_multi_area\<close> does not.
\<close>

theorem get_multi_area_open_child:
  "get_multi_area ref_kernel six_parent straight_cut =
     ([new_coords [5, 5, 4, 10, 10, 4] [- 1, 11, 10, 10, 0, 0]], None)
   \<and> get_multi_area (swapped ref_kernel) six_parent straight_cut =
     ([new_coords [5, 5, 4, 10, 10, 4] [- 1, 11, 10, 10, 0, 0]], None)"
  by (simp add: run_defs swapped_sel ref_kernel_sel geometry_defs six_parent_def straight_cut_def
      cong: then_do_weak_cong let_weak_cong)

subsection \<open>Exceptions\<close>

text \<open>
  Claim C6 fails on the code. The gesture cuts the corner \<open>(10, 10)\<close> of the square: it
  crosses the ring at \<open>(9, 10)\<close> and \<open>(10, 9)\<close>, and the nearest vertex of the parent to
  both is the corner. The piece of the parent that ends at the corner cannot be split
  there, \<open>split2_old\<close> has one member, and \<open>split2_old[1]\<close> raises IndexError, in either
  order of the two loci.
\<close>

theorem get_multi_area_corner_cut_raises:
  "get_multi_area ref_kernel square_parent corner_cut = ([], Some IndexError)
   \<and> get_multi_area (swapped ref_kernel) square_parent corner_cut = ([], Some IndexError)"
  by (simp add: run_defs swapped_sel ref_kernel_sel geometry_defs square_parent_def corner_cut_def
      cong: then_do_weak_cong let_weak_cong)

subsection \<open>All or nothing\<close>

text \<open>
  Claim C7. No call of either slot both reports a code and emits a curve, whatever the
  kernel answers.
\<close>

theorem all_or_nothing:
  "\<not> (rejects (get_multi_area k parent lasso) \<and> outputs_curve (get_multi_area k parent lasso))
   \<and> \<not> (rejects (get_lasso_area k lasso) \<and> outputs_curve (get_lasso_area k lasso))"
  using get_multi_area_settled[of k parent lasso] get_lasso_area_settled[of k lasso]
  by simp

theorem all_or_nothing_witness:
  "rejects (get_multi_area ref_kernel six_parent far_gesture)
   \<and> \<not> outputs_curve (get_multi_area ref_kernel six_parent far_gesture)
   \<and> outputs_curve (get_multi_area ref_kernel six_parent straight_cut)
   \<and> \<not> rejects (get_multi_area ref_kernel six_parent straight_cut)"
  using all_or_nothing[of ref_kernel six_parent far_gesture]
    all_or_nothing[of ref_kernel six_parent straight_cut]
  by (simp add: far_gesture_run straight_cut_run rejects_def outputs_curve_def)

section \<open>The objects of the caller\<close>

lemma deliver_frame:
  "currentObject (deliver c s) = currentObject c"
  "a \<noteq> currentObject c \<Longrightarrow> objects (deliver c s) a = objects c a"
  by (cases s; simp add: draw_object_def remove_object_def set_coords_def)+

lemma foldl_deliver_frame:
  "currentObject (foldl deliver c sigs) = currentObject c
   \<and> (a \<noteq> currentObject c \<longrightarrow> objects (foldl deliver c sigs) a = objects c a)"
  by (induction sigs arbitrary: c) (simp_all add: deliver_frame)

lemma onselect_frame:
  assumes "onselect c verts = Inr (c', sent, own)"
  shows "currentObject c' = currentObject c"
    and "a \<noteq> currentObject c \<Longrightarrow> objects c' a = objects c a"
  using assms
  by (auto simp: onselect_def draw_object_def set_coords_def Let_def
      split: option.splits sum.splits error.splits prod.splits if_splits)

text \<open>Only the current object is ever written.\<close>

lemma engine_call_frame:
  assumes "a \<noteq> currentObject c"
  shows "objects (fst (engine_call k c verts)) a = objects c a"
proof (cases "onselect c verts")
  case (Inl e)
  then show ?thesis by (simp add: engine_call_def)
next
  case (Inr r)
  obtain c' sent own where r: "r = (c', sent, own)"
    by (cases r) auto
  show ?thesis
    using Inr r assms onselect_frame(2)[of c verts c' sent own a]
      onselect_frame(1)[of c verts c' sent own] foldl_deliver_frame[of c' _ a]
    by (simp add: engine_call_def Let_def del: foldl_append)
qed

lemma backend_settled: "\<not> (rejects (backend k r) \<and> outputs_curve (backend k r))"
  by (cases r) (simp_all add: get_multi_area_settled get_lasso_area_settled)

lemma signal_kinds: "is_ask_redraw s \<or> is_new_coords s"
  by (cases s) simp_all

lemma deliver_code: "is_ask_redraw s \<Longrightarrow> deliver c s = remove_object c"
  by (cases s) simp_all

lemma remove_object_clears:
  "obj_x (objects (remove_object c) (currentObject c)) = None"
  "obj_y (objects (remove_object c) (currentObject c)) = None"
  by (simp_all add: remove_object_def set_coords_def)

lemma codes_clear:
  assumes "sigs \<noteq> []" and "list_all is_ask_redraw sigs"
  shows "obj_x (objects (foldl deliver c sigs) (currentObject c)) = None
         \<and> obj_y (objects (foldl deliver c sigs) (currentObject c)) = None"
proof -
  obtain front s where sigs: "sigs = front @ [s]"
    using assms(1) by (cases sigs rule: rev_cases) auto
  have "is_ask_redraw s"
    using assms(2) sigs by simp
  then have "foldl deliver c sigs = remove_object (foldl deliver c front)"
    using sigs by (simp add: deliver_code)
  moreover have "currentObject (foldl deliver c front) = currentObject c"
    using foldl_deliver_frame[of c front] by simp
  ultimately show ?thesis
    using remove_object_clears[of "foldl deliver c front"] by simp
qed

text \<open>When a code reaches the GUI, every signal of the call is a code.\<close>

lemma engine_call_signals:
  assumes "list_ex is_ask_redraw (snd (engine_call k c verts))"
  shows "list_all is_ask_redraw (snd (engine_call k c verts))"
proof (cases "onselect c verts")
  case (Inl e)
  then show ?thesis using assms by (simp add: engine_call_def)
next
  case (Inr r)
  obtain c' sent own where r: "r = (c', sent, own)"
    by (cases r) auto
  have own: "(own = [ask_redraw 3] \<and> sent = None) \<or> own = []"
    using Inr r
    by (auto simp: onselect_def Let_def
        split: option.splits sum.splits error.splits prod.splits if_splits)
  show ?thesis
  proof (cases sent)
    case None
    then show ?thesis
      using own Inr r by (auto simp: engine_call_def Let_def)
  next
    case (Some rq)
    then have sigs: "snd (engine_call k c verts) = fst (backend k rq)"
      using own Inr r by (auto simp: engine_call_def Let_def)
    have "\<not> list_ex is_new_coords (fst (backend k rq))"
      using backend_settled[of k rq] assms sigs by (simp add: rejects_def outputs_curve_def)
    then show ?thesis
      using sigs signal_kinds by (auto simp: list_ex_iff list_all_iff)
  qed
qed

lemma child_canvas_run:
  "engine_call ref_kernel child_canvas far_gesture =
     (remove_object (draw_object (set_coords child_canvas (Some (map fst far_gesture))
                                    (Some (map snd far_gesture)))
                       (map fst far_gesture) (map snd far_gesture)),
      [ask_redraw 2])"
  "engine_call ref_kernel child_canvas straight_cut =
     (draw_object (draw_object (set_coords child_canvas (Some (map fst straight_cut))
                                  (Some (map snd straight_cut)))
                     (map fst straight_cut) (map snd straight_cut))
        [5, 5, 4, 10, 10, 4] [- 1, 11, 10, 10, 0, 0],
      [new_coords [5, 5, 4, 10, 10, 4] [- 1, 11, 10, 10, 0, 0]])"
proof -
  have main: "mainobject (obj_x (family 0)) (obj_y (family 0)) = Inr six_parent"
    by (simp add: mainobject_def family_def six_parent_def)
  have child: "obj_parent (family (Suc 0)) = Some 0"
    by (simp add: family_def)
  show "engine_call ref_kernel child_canvas far_gesture =
     (remove_object (draw_object (set_coords child_canvas (Some (map fst far_gesture))
                                    (Some (map snd far_gesture)))
                       (map fst far_gesture) (map snd far_gesture)),
      [ask_redraw 2])"
    by (simp add: engine_call_def onselect_def child_canvas_def main child far_gesture_run)
  show "engine_call ref_kernel child_canvas straight_cut =
     (draw_object (draw_object (set_coords child_canvas (Some (map fst straight_cut))
                                  (Some (map snd straight_cut)))
                     (map fst straight_cut) (map snd straight_cut))
        [5, 5, 4, 10, 10, 4] [- 1, 11, 10, 10, 0, 0],
      [new_coords [5, 5, 4, 10, 10, 4] [- 1, 11, 10, 10, 0, 0]])"
    by (simp add: engine_call_def onselect_def child_canvas_def main child straight_cut_run)
qed

text \<open>
  Claim C2. Whatever the kernel answers and whatever the gesture is, a drag on a child
  object leaves the parent object as it was, its coordinates included: the slot reads a
  copy of the parent's points, and the only object written, by \<open>onselect\<close> and by the
  slots of the GUI, is the current one. A child is never its own parent.
\<close>

theorem parent_never_mutated:
  assumes "obj_parent (objects c (currentObject c)) = Some p" and "p \<noteq> currentObject c"
  shows "objects (fst (engine_call k c verts)) p = objects c p"
  using assms(2) by (rule engine_call_frame)

theorem parent_never_mutated_witness:
  "obj_parent (objects child_canvas (currentObject child_canvas)) = Some 0
   \<and> 0 \<noteq> currentObject child_canvas
   \<and> snd (engine_call ref_kernel child_canvas straight_cut) =
       [new_coords [5, 5, 4, 10, 10, 4] [- 1, 11, 10, 10, 0, 0]]
   \<and> objects (fst (engine_call ref_kernel child_canvas straight_cut)) 0
       = objects child_canvas 0
   \<and> obj_x (objects child_canvas 0) = Some (map fst six_parent)"
  using parent_never_mutated[of child_canvas 0 ref_kernel straight_cut]
  by (simp only: child_canvas_run)
     (simp add: child_canvas_def family_def draw_object_def set_coords_def)

text \<open>
  Claim C8, as amended. When a call reports a code, the coordinates of the current object
  are cleared, whatever it held before, so a rejected call leaves no curve on it. When no
  signal at all reaches the GUI (the slot returned silently or died) the current object
  holds the raw gesture, which \<open>onselect\<close> stores before the engine answers: a curve can
  come into existence without a successful resolution. In every case every other object,
  the parent included, is as it was before the call.
\<close>

theorem engine_call_stores:
  "(list_ex is_ask_redraw (snd (engine_call k c verts)) \<longrightarrow>
      obj_x (objects (fst (engine_call k c verts)) (currentObject c)) = None
      \<and> obj_y (objects (fst (engine_call k c verts)) (currentObject c)) = None)
   \<and> (snd (engine_call k c verts) = [] \<and> (\<exists>r. onselect c verts = Inr r) \<longrightarrow>
      obj_x (objects (fst (engine_call k c verts)) (currentObject c)) = Some (map fst verts)
      \<and> obj_y (objects (fst (engine_call k c verts)) (currentObject c)) = Some (map snd verts))
   \<and> (\<forall>a. a \<noteq> currentObject c \<longrightarrow> objects (fst (engine_call k c verts)) a = objects c a)"
proof (intro conjI impI)
  assume code: "list_ex is_ask_redraw (snd (engine_call k c verts))"
  have all: "list_all is_ask_redraw (snd (engine_call k c verts))"
    using code by (rule engine_call_signals)
  have ne: "snd (engine_call k c verts) \<noteq> []"
    using code by auto
  obtain c' sent own where on: "onselect c verts = Inr (c', sent, own)"
    using ne by (cases "onselect c verts") (auto simp: engine_call_def)
  define sigs where "sigs = own @ (case sent of None \<Rightarrow> [] | Some r \<Rightarrow> fst (backend k r))"
  have ec: "engine_call k c verts = (foldl deliver c' sigs, sigs)"
    using on by (simp add: engine_call_def sigs_def Let_def del: foldl_append)
  have cur: "currentObject c' = currentObject c"
    using on by (rule onselect_frame(1))
  show "obj_x (objects (fst (engine_call k c verts)) (currentObject c)) = None"
    using codes_clear[of sigs c'] all ne ec cur by simp
  show "obj_y (objects (fst (engine_call k c verts)) (currentObject c)) = None"
    using codes_clear[of sigs c'] all ne ec cur by simp
next
  assume silent: "snd (engine_call k c verts) = [] \<and> (\<exists>r. onselect c verts = Inr r)"
  then obtain c' sent own where on: "onselect c verts = Inr (c', sent, own)"
    by (metis prod_cases3)
  have "fst (engine_call k c verts) = c'"
    using on silent by (simp add: engine_call_def Let_def)
  moreover have "obj_x (objects c' (currentObject c)) = Some (map fst verts)
                 \<and> obj_y (objects c' (currentObject c)) = Some (map snd verts)"
    using on
    by (auto simp: onselect_def draw_object_def set_coords_def Let_def
        split: option.splits sum.splits error.splits prod.splits if_splits)
  ultimately show "obj_x (objects (fst (engine_call k c verts)) (currentObject c))
                     = Some (map fst verts)"
    and "obj_y (objects (fst (engine_call k c verts)) (currentObject c)) = Some (map snd verts)"
    by simp_all
next
  show "\<forall>a. a \<noteq> currentObject c \<longrightarrow> objects (fst (engine_call k c verts)) a = objects c a"
    using engine_call_frame[of _ c k verts] by simp
qed

lemma fresh_canvas_run:
  "onselect fresh_canvas short_gesture =
     Inr (draw_object (set_coords fresh_canvas (Some (map fst short_gesture))
                         (Some (map snd short_gesture)))
            (map fst short_gesture) (map snd short_gesture),
          Some (multi_drawn six_parent short_gesture), [])"
  "engine_call ref_kernel fresh_canvas short_gesture =
     (draw_object (set_coords fresh_canvas (Some (map fst short_gesture))
                     (Some (map snd short_gesture)))
        (map fst short_gesture) (map snd short_gesture), [])"
proof -
  have main: "mainobject (obj_x (family 0)) (obj_y (family 0)) = Inr six_parent"
    by (simp add: mainobject_def family_def six_parent_def)
  show on: "onselect fresh_canvas short_gesture =
     Inr (draw_object (set_coords fresh_canvas (Some (map fst short_gesture))
                         (Some (map snd short_gesture)))
            (map fst short_gesture) (map snd short_gesture),
          Some (multi_drawn six_parent short_gesture), [])"
    by (simp add: onselect_def fresh_canvas_def main)
  have "get_multi_area ref_kernel six_parent short_gesture = ([], None)"
    by (simp add: get_multi_area_def finish_def example_lengths)
  then show "engine_call ref_kernel fresh_canvas short_gesture =
     (draw_object (set_coords fresh_canvas (Some (map fst short_gesture))
                     (Some (map snd short_gesture)))
        (map fst short_gesture) (map snd short_gesture), [])"
    by (simp add: engine_call_def on)
qed

theorem engine_call_stores_witness:
  "list_ex is_ask_redraw (snd (engine_call ref_kernel child_canvas far_gesture))
   \<and> obj_x (objects (fst (engine_call ref_kernel child_canvas far_gesture)) 1) = None
   \<and> obj_y (objects (fst (engine_call ref_kernel child_canvas far_gesture)) 1) = None
   \<and> objects (fst (engine_call ref_kernel child_canvas far_gesture)) 0 = objects child_canvas 0
   \<and> snd (engine_call ref_kernel fresh_canvas short_gesture) = []
   \<and> obj_x (objects (fst (engine_call ref_kernel fresh_canvas short_gesture)) 1)
       = Some [20, 30, 40]
   \<and> obj_y (objects (fst (engine_call ref_kernel fresh_canvas short_gesture)) 1)
       = Some [20, 30, 20]"
  using engine_call_stores[of ref_kernel child_canvas far_gesture]
    engine_call_stores[of ref_kernel fresh_canvas short_gesture]
  by (simp only: child_canvas_run fresh_canvas_run)
     (simp add: child_canvas_def fresh_canvas_def family_def remove_object_def draw_object_def
        set_coords_def short_gesture_def)

text \<open>
  Claim C8 as the specification states it fails twice. A rejected call alters the current
  object: it held a curve, the call is rejected with code 2, and the curve is gone. And a
  curve comes into existence without a resolution: the current object held none, the
  gesture of three points makes the slot return silently, and the object holds the raw
  gesture afterwards.
\<close>

theorem rejected_call_counterexample:
  "snd (engine_call ref_kernel child_canvas far_gesture) = [ask_redraw 2]
   \<and> obj_x (objects child_canvas (currentObject child_canvas)) = Some [1, 2, 1]
   \<and> obj_x (objects (fst (engine_call ref_kernel child_canvas far_gesture))
             (currentObject child_canvas)) = None
   \<and> snd (engine_call ref_kernel fresh_canvas short_gesture) = []
   \<and> obj_x (objects fresh_canvas (currentObject fresh_canvas)) = None
   \<and> obj_x (objects (fst (engine_call ref_kernel fresh_canvas short_gesture))
             (currentObject fresh_canvas)) = Some [20, 30, 40]"
  by (simp only: child_canvas_run fresh_canvas_run)
     (simp add: child_canvas_def fresh_canvas_def family_def remove_object_def draw_object_def
        set_coords_def short_gesture_def)

end
